theory Spec2Isabelle
  imports Complex_Main "HOL-Library.AList" "HOL-Library.Sublist"
begin

section \<open>Well-log documents built from tabular sources\<close>

text \<open>
  A shallow embedding of \<^verbatim>\<open>example_well_log_synced.py\<close>: the two classes
  \<^verbatim>\<open>DepositionalEnvironmentSMDAStandard\<close> and \<^verbatim>\<open>DepositionalEnvironmentsWebviz\<close> and the
  callback \<^verbatim>\<open>_set_well\<close>. A pandas data frame is the list of its rows, in row order; a
  Python dict is an association list in insertion order; an exception is the left
  injection of a sum. The \<^verbatim>\<open>print\<close> calls write to standard output only and are left out.
\<close>

subsection \<open>Exceptions\<close>

text \<open>
  \<^verbatim>\<open>IndexError\<close> and \<^verbatim>\<open>KeyError\<close> are the two subclasses of Python's \<^verbatim>\<open>LookupError\<close>;
  \<^verbatim>\<open>re.error\<close> derives from \<^verbatim>\<open>Exception\<close> directly. \<open>Unmodelled\<close> is not an exception
  of the program: it marks a pattern on which this embedding makes no statement (one
  using regular-expression syntax beyond the fragment below, or holding a character
  outside ASCII, which Python folds by Unicode tables).
\<close>

datatype py_error = IndexError | KeyError | ReError | Unmodelled

fun is_LookupError :: "py_error \<Rightarrow> bool" where
  "is_LookupError IndexError = True"
| "is_LookupError KeyError = True"
| "is_LookupError ReError = False"
| "is_LookupError Unmodelled = False"

subsection \<open>The fragment of Python's \<^verbatim>\<open>re\<close> that \<^verbatim>\<open>str.contains\<close> is run on\<close>

text \<open>
  \<^verbatim>\<open>Series.str.contains(pat, flags=re.IGNORECASE)\<close> compiles \<^verbatim>\<open>pat\<close> once with
  \<^verbatim>\<open>re.compile\<close> and then asks, for every string of the series, whether \<^verbatim>\<open>search\<close> finds
  a match. The fragment modelled: ordinary characters, the dot and grouping
  parentheses. Within it a pattern is a sequence of one-character atoms, and the
  parentheses only have to balance. A character is a code point below 256. The
  strings searched are arbitrary: an ASCII letter of the pattern matches its two cases
  and no code point from 128 to 255, and the dot matches everything but a line feed.
\<close>

definition ascii_char :: "char \<Rightarrow> bool" where
  "ascii_char c = ((of_char c :: nat) < 128)"

definition lower :: "char \<Rightarrow> char" where
  "lower c = (let n = (of_char c :: nat) in if 65 \<le> n \<and> n \<le> 90 then char_of (n + 32) else c)"

definition re_special :: "char \<Rightarrow> bool" where
  "re_special c = (c \<in> set ''.^$*+?{}[]|()'' \<or> c = CHR 0x5C)"

definition re_unmodelled :: "char \<Rightarrow> bool" where
  "re_unmodelled c = (c \<in> set ''^$*+?{}[]|'' \<or> c = CHR 0x5C \<or> 128 \<le> (of_char c :: nat))"

datatype re_atom = Lit char | Dot

fun re_parse :: "nat \<Rightarrow> string \<Rightarrow> py_error + re_atom list" where
  "re_parse depth [] = (if depth = 0 then Inr [] else Inl ReError)"
| "re_parse depth (c # cs) =
     (if c = CHR ''('' then re_parse (Suc depth) cs
      else if c = CHR '')'' then (if depth = 0 then Inl ReError else re_parse (depth - 1) cs)
      else if re_unmodelled c then Inl Unmodelled
      else (case re_parse depth cs of
              Inl e \<Rightarrow> Inl e
            | Inr atoms \<Rightarrow> Inr ((if c = CHR ''.'' then Dot else Lit c) # atoms)))"

definition re_compile :: "string \<Rightarrow> py_error + re_atom list" where
  "re_compile pat = re_parse 0 pat"

fun atom_match :: "re_atom \<Rightarrow> char \<Rightarrow> bool" where
  "atom_match (Lit p) c = (lower c = lower p)"
| "atom_match Dot c = (c \<noteq> CHR 0x0A)"

fun match_here :: "re_atom list \<Rightarrow> string \<Rightarrow> bool" where
  "match_here [] s = True"
| "match_here (a # as) [] = False"
| "match_here (a # as) (c # cs) = (atom_match a c \<and> match_here as cs)"

fun re_search :: "re_atom list \<Rightarrow> string \<Rightarrow> bool" where
  "re_search atoms [] = match_here atoms []"
| "re_search atoms (c # cs) = (match_here atoms (c # cs) \<or> re_search atoms cs)"

definition str_contains :: "string list \<Rightarrow> string \<Rightarrow> py_error + bool list" where
  "str_contains series pat =
     (case re_compile pat of
        Inl e \<Rightarrow> Inl e
      | Inr atoms \<Rightarrow> Inr (map (re_search atoms) series))"

subsection \<open>Data frames, series and dicts\<close>

definition boolean_index :: "'a list \<Rightarrow> bool list \<Rightarrow> 'a list" where
  "boolean_index df msk = map fst (filter snd (zip df msk))"

definition values_0 :: "'a list \<Rightarrow> py_error + 'a" where
  "values_0 vs = (case vs of [] \<Rightarrow> Inl IndexError | v # _ \<Rightarrow> Inr v)"

fun unique_from :: "'a list \<Rightarrow> 'a list \<Rightarrow> 'a list" where
  "unique_from seen [] = []"
| "unique_from seen (x # xs) =
     (if x \<in> set seen then unique_from seen xs else x # unique_from (x # seen) xs)"

definition unique :: "'a list \<Rightarrow> 'a list" where
  "unique xs = unique_from [] xs"

definition enumerate_py :: "'a list \<Rightarrow> (int \<times> 'a) list" where
  "enumerate_py xs = zip (map int [0..<length xs]) xs"

definition dict_of_items :: "('k \<times> 'v) list \<Rightarrow> ('k \<times> 'v) list" where
  "dict_of_items kvs = fold (\<lambda>(k, v) d. AList.update k v d) kvs []"

definition dict_update :: "('k \<times> 'v) list \<Rightarrow> ('k \<times> 'v) list \<Rightarrow> ('k \<times> 'v) list" where
  "dict_update d other = fold (\<lambda>(k, v) d. AList.update k v d) other d"

definition dict_getitem :: "('k \<times> 'v) list \<Rightarrow> 'k \<Rightarrow> py_error + 'v" where
  "dict_getitem d k = (case map_of d k of None \<Rightarrow> Inl KeyError | Some v \<Rightarrow> Inr v)"

text \<open>What \<^verbatim>\<open>Series.min()\<close> and \<^verbatim>\<open>Series.max()\<close> return: a number, or NaN on no rows.\<close>

datatype number = NaN | Num real

definition series_min :: "real list \<Rightarrow> number" where
  "series_min xs = (case xs of [] \<Rightarrow> NaN | x # rest \<Rightarrow> Num (fold min rest x))"

definition series_max :: "real list \<Rightarrow> number" where
  "series_max xs = (case xs of [] \<Rightarrow> NaN | x # rest \<Rightarrow> Num (fold max rest x))"

subsection \<open>The two source tables\<close>

text \<open>
  A row of the colour standard (columns \<^verbatim>\<open>DEPOSITIONAL ENVIRONMENT\<close>, \<^verbatim>\<open>SMDA code\<close>,
  \<^verbatim>\<open>R\<close>, \<^verbatim>\<open>G\<close>, \<^verbatim>\<open>B\<close>) and a row of the interval table. The cell
  \<^verbatim>\<open>Depositional Environment\<close> is \<open>Some s\<close> when it holds the string \<open>s\<close> and \<open>None\<close>
  when it holds anything else (an empty CSV cell is read as NaN). The two depth cells
  hold numbers; the cell \<^verbatim>\<open>Lithostrat_unit\<close> and the label cell of the colour standard
  hold strings.
\<close>

record depenv_row =
  DEPOSITIONAL_ENVIRONMENT :: string
  SMDA_code :: int
  col_R :: int
  col_G :: int
  col_B :: int

record lithostrat_row =
  unique_wellbore_identifier :: string
  Depth_top :: real
  Depth_base :: real
  Lithostrat_unit :: string
  Depositional_Environment :: "string option"

type_synonym DepositionalEnvironmentSMDAStandard = "depenv_row list"

record DepositionalEnvironmentsWebviz =
  lithostrat_df :: "lithostrat_row list"
  dep_environments :: DepositionalEnvironmentSMDAStandard

subsection \<open>The documents\<close>

record discrete_block =
  attributes :: "string list"
  objects :: "(string \<times> (int list \<times> int)) list"

type_synonym metadata = "(string \<times> discrete_block) list"

record curve =
  curve_name :: string
  description :: string
  quantity :: string
  curve_unit :: string
  valueType :: string
  dimensions :: int

record log_header =
  header_name :: string
  well :: string
  startIndex :: number
  endIndex :: number
  step :: "real option"

type_synonym data_row = "real \<times> int option \<times> int"

record log_document =
  header :: log_header
  curves :: "curve list"
  data :: "data_row list"
  metadata_discrete :: metadata

record plot =
  plot_name :: string
  plot_type :: string
  colorTable :: "string option"

record template =
  template_name :: string
  scale_primary :: string
  tracks :: "plot list list"

subsection \<open>\<^verbatim>\<open>DepositionalEnvironmentSMDAStandard\<close>\<close>

definition get_dep_environment_for_smda_code ::
  "DepositionalEnvironmentSMDAStandard \<Rightarrow> int \<Rightarrow> py_error + string" where
  "get_dep_environment_for_smda_code df smda_code =
     values_0 (map DEPOSITIONAL_ENVIRONMENT (filter (\<lambda>r. SMDA_code r = smda_code) df))"

definition get_smda_code_for_dep_environment ::
  "DepositionalEnvironmentSMDAStandard \<Rightarrow> string \<Rightarrow> py_error + int" where
  "get_smda_code_for_dep_environment df dep_env =
     (case str_contains (map DEPOSITIONAL_ENVIRONMENT df) dep_env of
        Inl e \<Rightarrow> Inl e
      | Inr msk \<Rightarrow> values_0 (map SMDA_code (boolean_index df msk)))"

definition get_webviz_well_log_metadata :: "DepositionalEnvironmentSMDAStandard \<Rightarrow> metadata" where
  "get_webviz_well_log_metadata df =
     [(''DepositionalEnvironment'',
       \<lparr>attributes = [''color'', ''code''],
        objects = dict_of_items
          (map (\<lambda>row. (DEPOSITIONAL_ENVIRONMENT row,
                        ([col_R row, col_G row, col_B row, 255], SMDA_code row))) df)\<rparr>)]"

subsection \<open>\<^verbatim>\<open>DepositionalEnvironmentsWebviz\<close>\<close>

definition lithostrat_codes :: "DepositionalEnvironmentsWebviz \<Rightarrow> (string \<times> int) list" where
  "lithostrat_codes self =
     dict_of_items (map (\<lambda>(code, label). (label, code))
       (enumerate_py (unique (map Lithostrat_unit (lithostrat_df self)))))"

definition wells :: "DepositionalEnvironmentsWebviz \<Rightarrow> string list" where
  "wells self = unique (map unique_wellbore_identifier (lithostrat_df self))"

definition get_log_curves :: "curve list" where
  "get_log_curves =
     [\<lparr>curve_name = ''MD'', description = ''continuous'', quantity = ''m'',
       curve_unit = ''m'', valueType = ''float'', dimensions = 1\<rparr>,
      \<lparr>curve_name = ''DepositionalEnvironment'', description = '''', quantity = ''DISC'',
       curve_unit = ''DISC'', valueType = ''integer'', dimensions = 1\<rparr>,
      \<lparr>curve_name = ''Lithostrat_unit'', description = '''', quantity = ''DISC'',
       curve_unit = ''DISC'', valueType = ''integer'', dimensions = 1\<rparr>]"

definition rows_of_well :: "DepositionalEnvironmentsWebviz \<Rightarrow> string \<Rightarrow> lithostrat_row list" where
  "rows_of_well self well_name =
     filter (\<lambda>r. unique_wellbore_identifier r = well_name) (lithostrat_df self)"

definition get_log_header :: "DepositionalEnvironmentsWebviz \<Rightarrow> string \<Rightarrow> log_header" where
  "get_log_header self well_name =
     (let df = rows_of_well self well_name in
      \<lparr>header_name = ''BLOCKING'', well = well_name,
       startIndex = series_min (map Depth_top df),
       endIndex = series_max (map Depth_base df),
       step = None\<rparr>)"

text \<open>
  One turn of the loop of \<^verbatim>\<open>_get_log_data\<close>: the list display evaluates its three
  entries left to right, and an exception in one of them leaves the loop. The second
  entry is the conditional expression on \<^verbatim>\<open>isinstance(..., str)\<close>.
\<close>

definition depenv_entry :: "DepositionalEnvironmentsWebviz \<Rightarrow> lithostrat_row \<Rightarrow> py_error + int option" where
  "depenv_entry self row =
     (case Depositional_Environment row of
        Some s \<Rightarrow> (case get_smda_code_for_dep_environment (dep_environments self) s of
                     Inl e \<Rightarrow> Inl e
                   | Inr c \<Rightarrow> Inr (Some c))
      | None \<Rightarrow> Inr None)"

definition log_data_row :: "DepositionalEnvironmentsWebviz \<Rightarrow> lithostrat_row \<Rightarrow> py_error + data_row" where
  "log_data_row self row =
     (case depenv_entry self row of
        Inl e \<Rightarrow> Inl e
      | Inr depenv \<Rightarrow>
          (case dict_getitem (lithostrat_codes self) (Lithostrat_unit row) of
             Inl e \<Rightarrow> Inl e
           | Inr code \<Rightarrow> Inr (Depth_top row, depenv, code)))"

fun log_data_loop ::
  "DepositionalEnvironmentsWebviz \<Rightarrow> lithostrat_row list \<Rightarrow> data_row list \<Rightarrow> py_error + data_row list" where
  "log_data_loop self [] acc = Inr acc"
| "log_data_loop self (row # rows) acc =
     (case log_data_row self row of
        Inl e \<Rightarrow> Inl e
      | Inr r \<Rightarrow> log_data_loop self rows (acc @ [r]))"

definition get_log_data :: "DepositionalEnvironmentsWebviz \<Rightarrow> string \<Rightarrow> py_error + data_row list" where
  "get_log_data self well_name = log_data_loop self (rows_of_well self well_name) []"

definition get_log_metadata_discrete :: "DepositionalEnvironmentsWebviz \<Rightarrow> metadata" where
  "get_log_metadata_discrete self =
     dict_update
       [(''Lithostrat_unit'',
         \<lparr>attributes = [''color'', ''code''],
          objects = dict_of_items
            (map (\<lambda>(label, code). (label, ([0, 0, 0, 255], code))) (lithostrat_codes self))\<rparr>)]
       (get_webviz_well_log_metadata (dep_environments self))"

definition get_webviz_well_log :: "DepositionalEnvironmentsWebviz \<Rightarrow> string \<Rightarrow> py_error + log_document" where
  "get_webviz_well_log self well_name =
     (case get_log_data self well_name of
        Inl e \<Rightarrow> Inl e
      | Inr d \<Rightarrow>
          Inr \<lparr>header = get_log_header self well_name,
               curves = get_log_curves,
               data = d,
               metadata_discrete = get_log_metadata_discrete self\<rparr>)"

subsection \<open>The callback \<^verbatim>\<open>_set_well\<close>\<close>

definition well_template :: template where
  "well_template =
     \<lparr>template_name = ''Template'', scale_primary = ''MD'',
      tracks = [[\<lparr>plot_name = ''DepositionalEnvironment'', plot_type = ''stacked'',
                  colorTable = None\<rparr>],
                [\<lparr>plot_name = ''Lithostrat_unit'', plot_type = ''stacked'',
                  colorTable = Some ''Stratigraphy''\<rparr>]]\<rparr>"

fun well_logs :: "DepositionalEnvironmentsWebviz \<Rightarrow> string list \<Rightarrow> py_error + log_document list" where
  "well_logs lith [] = Inr []"
| "well_logs lith (well_name # well_names) =
     (case get_webviz_well_log lith well_name of
        Inl e \<Rightarrow> Inl e
      | Inr doc \<Rightarrow> (case well_logs lith well_names of
                      Inl e \<Rightarrow> Inl e
                    | Inr docs \<Rightarrow> Inr (doc # docs)))"

definition set_well ::
  "DepositionalEnvironmentsWebviz \<Rightarrow> string list \<Rightarrow>
     py_error + (log_document list \<times> template list \<times> int list \<times> int list)" where
  "set_well lith well_names =
     (case well_logs lith well_names of
        Inl e \<Rightarrow> Inl e
      | Inr logs \<Rightarrow>
          (let templates = map (\<lambda>_. well_template) well_names;
               spacers = map (\<lambda>_. 200) well_names
           in Inr (logs, templates, spacers, spacers)))"

subsection \<open>Literal, case-insensitive containment\<close>

text \<open>
  The reading of ``case-insensitive substring'' that needs no regular expression: the
  text \<open>q\<close> occurs in \<open>s\<close> as a contiguous run of characters once both are put in lower
  case. \<open>plain_text\<close> holds of ASCII text free of the characters \<^verbatim>\<open>re\<close> gives a meaning to.
\<close>

definition ci_substring :: "string \<Rightarrow> string \<Rightarrow> bool" where
  "ci_substring q s = sublist (map lower q) (map lower s)"

definition plain_char :: "char \<Rightarrow> bool" where
  "plain_char c = (ascii_char c \<and> \<not> re_special c)"

definition plain_text :: "string \<Rightarrow> bool" where
  "plain_text q = list_all plain_char q"

subsection \<open>Entries of the discrete metadata\<close>

text \<open>
  A discrete value \<open>c\<close> of the curve \<open>cname\<close> has an entry in the metadata when the block
  stored under the curve's name holds an object, label to colour and code, with code \<open>c\<close>.
\<close>

definition has_entry :: "metadata \<Rightarrow> string \<Rightarrow> int \<Rightarrow> bool" where
  "has_entry md cname c =
     (case map_of md cname of
        None \<Rightarrow> False
      | Some blk \<Rightarrow> c \<in> set (map (\<lambda>(label, color, code). code) (objects blk)))"

section \<open>Auxiliary facts\<close>

subsection \<open>Plain text compiles to literals, and searching for literals is containment\<close>

lemma re_parse_plain:
  "plain_text q \<Longrightarrow> re_parse d q = (if d = 0 then Inr (map Lit q) else Inl ReError)"
  by (induction q arbitrary: d)
     (auto simp: plain_text_def plain_char_def re_special_def re_unmodelled_def ascii_char_def)

lemma re_compile_plain: "plain_text q \<Longrightarrow> re_compile q = Inr (map Lit q)"
  by (simp add: re_compile_def re_parse_plain)

lemma match_here_Lit: "match_here (map Lit q) s = prefix (map lower q) (map lower s)"
  by (induction "map Lit q" s arbitrary: q rule: match_here.induct) auto

lemma re_search_Lit: "re_search (map Lit q) s = ci_substring q s"
  by (induction s) (auto simp: ci_substring_def match_here_Lit sublist_Cons_right)

lemma boolean_index_map: "boolean_index df (map P df) = filter P df"
  by (induction df) (auto simp: boolean_index_def)

lemma boolean_index_map2: "boolean_index df (map P (map f df)) = filter (\<lambda>r. P (f r)) df"
  by (induction df) (auto simp: boolean_index_def)

lemma resolve_plain:
  assumes "plain_text q"
  shows "get_smda_code_for_dep_environment df q =
     (case filter (\<lambda>r. ci_substring q (DEPOSITIONAL_ENVIRONMENT r)) df of
        [] \<Rightarrow> Inl IndexError | r # _ \<Rightarrow> Inr (SMDA_code r))"
proof -
  have "str_contains (map DEPOSITIONAL_ENVIRONMENT df) q =
          Inr (map (re_search (map Lit q)) (map DEPOSITIONAL_ENVIRONMENT df))"
    unfolding str_contains_def using assms by (simp add: re_compile_plain)
  then have "get_smda_code_for_dep_environment df q =
          values_0 (map SMDA_code (filter (\<lambda>r. ci_substring q (DEPOSITIONAL_ENVIRONMENT r)) df))"
    unfolding get_smda_code_for_dep_environment_def
    by (simp only: sum.case boolean_index_map2 re_search_Lit)
  then show ?thesis
    by (simp add: values_0_def split: list.splits)
qed

lemma set_boolean_index: "set (boolean_index df msk) \<subseteq> set df"
  by (auto simp: boolean_index_def dest: set_zip_leftD)

lemma values_0_Inr: "values_0 vs = Inr v \<Longrightarrow> v \<in> set vs"
  by (cases vs) (simp_all add: values_0_def)

lemma resolve_Inr_row:
  assumes "get_smda_code_for_dep_environment df s = Inr c"
  shows "\<exists>r\<in>set df. SMDA_code r = c"
proof (cases "str_contains (map DEPOSITIONAL_ENVIRONMENT df) s")
  case (Inl e)
  with assms show ?thesis by (simp add: get_smda_code_for_dep_environment_def)
next
  case (Inr msk)
  with assms have "values_0 (map SMDA_code (boolean_index df msk)) = Inr c"
    by (simp add: get_smda_code_for_dep_environment_def)
  then have "c \<in> SMDA_code ` set (boolean_index df msk)"
    using values_0_Inr by fastforce
  then show ?thesis using set_boolean_index [of df msk] by blast
qed

lemma update_fresh: "k \<notin> fst ` set al \<Longrightarrow> AList.update k v al = al @ [(k, v)]"
  by (induction al) auto

lemma fold_update_distinct:
  "distinct (map fst kvs) \<Longrightarrow> fst ` set kvs \<inter> fst ` set d = {} \<Longrightarrow>
   fold (\<lambda>(k, v) d. AList.update k v d) kvs d = d @ kvs"
proof (induction kvs arbitrary: d)
  case Nil
  then show ?case by simp
next
  case (Cons kv kvs)
  obtain k v where kv: "kv = (k, v)" by (cases kv)
  from Cons.prems have fresh: "k \<notin> fst ` set d" and dist: "distinct (map fst kvs)"
    and disj: "fst ` set kvs \<inter> fst ` set (d @ [(k, v)]) = {}"
    by (auto simp: kv)
  show ?case
    using Cons.IH [OF dist disj] by (simp add: kv update_fresh [OF fresh])
qed

lemma dict_of_items_distinct: "distinct (map fst kvs) \<Longrightarrow> dict_of_items kvs = kvs"
  by (simp add: dict_of_items_def fold_update_distinct)

lemma set_unique_from: "set (unique_from seen xs) = set xs - set seen"
  by (induction xs arbitrary: seen) auto

lemma distinct_unique_from: "distinct (unique_from seen xs)"
  by (induction xs arbitrary: seen) (auto simp: set_unique_from)

lemma set_unique: "set (unique xs) = set xs"
  by (simp add: unique_def set_unique_from)

lemma distinct_unique: "distinct (unique xs)"
  by (simp add: unique_def distinct_unique_from)

lemma lithostrat_codes_zip:
  "lithostrat_codes self =
     zip (unique (map Lithostrat_unit (lithostrat_df self)))
         (map int [0..<length (unique (map Lithostrat_unit (lithostrat_df self)))])"
proof -
  let ?u = "unique (map Lithostrat_unit (lithostrat_df self))"
  have swap: "map (\<lambda>(code, label). (label, code)) (zip cs ls) = zip ls cs"
    if "length cs = length ls" for cs :: "int list" and ls :: "string list"
    using that by (induction cs ls rule: list_induct2) auto
  have eq: "map (\<lambda>(code, label). (label, code)) (enumerate_py ?u) = zip ?u (map int [0..<length ?u])"
    unfolding enumerate_py_def by (rule swap) simp
  have "distinct (map fst (zip ?u (map int [0..<length ?u])))"
    by (simp add: distinct_unique)
  then show ?thesis
    unfolding lithostrat_codes_def eq by (rule dict_of_items_distinct)
qed

lemma lithostrat_codes_keys:
  "map fst (lithostrat_codes self) = unique (map Lithostrat_unit (lithostrat_df self))"
  by (simp add: lithostrat_codes_zip)

lemma lithostrat_code_found:
  assumes "row \<in> set (lithostrat_df self)"
  shows "\<exists>code. map_of (lithostrat_codes self) (Lithostrat_unit row) = Some code"
proof -
  let ?u = "unique (map Lithostrat_unit (lithostrat_df self))"
  have "Lithostrat_unit row \<in> set ?u" using assms by (simp add: set_unique)
  moreover have "length ?u = length (map int [0..<length ?u])" by simp
  ultimately show ?thesis
    unfolding lithostrat_codes_zip by (simp only: map_of_zip_is_Some [symmetric])
qed

lemma log_data_loop_Inr:
  "log_data_loop self rows acc = Inr d \<longleftrightarrow>
     (\<exists>rs. d = acc @ rs \<and> list_all2 (\<lambda>row r. log_data_row self row = Inr r) rows rs)"
proof (induction rows arbitrary: acc)
  case Nil
  then show ?case by auto
next
  case (Cons row rows)
  show ?case
  proof (cases "log_data_row self row")
    case (Inl e)
    then show ?thesis by (auto simp: list_all2_Cons1)
  next
    case (Inr r)
    have "(\<exists>rs. d = (acc @ [r]) @ rs \<and> list_all2 (\<lambda>row r. log_data_row self row = Inr r) rows rs)
        \<longleftrightarrow> (\<exists>rs. d = acc @ rs \<and>
              list_all2 (\<lambda>row r. log_data_row self row = Inr r) (row # rows) rs)"
      unfolding list_all2_Cons1 Inr by (simp del: split_paired_Ex) blast
    then show ?thesis by (simp add: Inr Cons.IH del: split_paired_Ex)
  qed
qed

lemma log_data_loop_Inl:
  "log_data_loop self rows acc = Inl e \<Longrightarrow> \<exists>row\<in>set rows. log_data_row self row = Inl e"
  by (induction rows arbitrary: acc) (auto split: sum.splits)


subsection \<open>Rows, data and header of one well\<close>

lemma rows_of_well_subset: "row \<in> set (rows_of_well self w) \<Longrightarrow> row \<in> set (lithostrat_df self)"
  by (simp add: rows_of_well_def)

lemma depenv_entry_Inr:
  "depenv_entry self row = Inr depenv \<longleftrightarrow>
     (case Depositional_Environment row of
        None \<Rightarrow> depenv = None
      | Some s \<Rightarrow> \<exists>c. get_smda_code_for_dep_environment (dep_environments self) s = Inr c \<and>
                      depenv = Some c)"
  by (auto simp: depenv_entry_def split: option.splits sum.splits)

lemma depenv_entry_Inl:
  "depenv_entry self row = Inl e \<longleftrightarrow>
     (\<exists>s. Depositional_Environment row = Some s \<and>
          get_smda_code_for_dep_environment (dep_environments self) s = Inl e)"
  by (auto simp: depenv_entry_def split: option.splits sum.splits)

lemma log_data_row_Inr:
  "log_data_row self row = Inr r \<longleftrightarrow>
     (\<exists>depenv code. r = (Depth_top row, depenv, code) \<and> depenv_entry self row = Inr depenv \<and>
        map_of (lithostrat_codes self) (Lithostrat_unit row) = Some code)"
  by (auto simp: log_data_row_def dict_getitem_def split: sum.splits option.splits)

lemma log_data_row_Inl:
  assumes "row \<in> set (lithostrat_df self)"
  shows "log_data_row self row = Inl e \<longleftrightarrow> depenv_entry self row = Inl e"
proof -
  obtain code where "map_of (lithostrat_codes self) (Lithostrat_unit row) = Some code"
    using lithostrat_code_found [OF assms] by blast
  then show ?thesis
    by (simp add: log_data_row_def dict_getitem_def split: sum.splits)
qed

lemma get_log_data_Inr:
  "get_log_data self w = Inr d \<longleftrightarrow>
     list_all2 (\<lambda>row r. log_data_row self row = Inr r) (rows_of_well self w) d"
  by (simp add: get_log_data_def log_data_loop_Inr)

lemma get_log_data_Inl:
  assumes "get_log_data self w = Inl e"
  shows "\<exists>row\<in>set (rows_of_well self w). \<exists>s. Depositional_Environment row = Some s \<and>
           get_smda_code_for_dep_environment (dep_environments self) s = Inl e"
proof -
  from assms obtain row where row: "row \<in> set (rows_of_well self w)"
    and fails: "log_data_row self row = Inl e"
    unfolding get_log_data_def using log_data_loop_Inl by blast
  from row have "row \<in> set (lithostrat_df self)" by (rule rows_of_well_subset)
  with fails have "depenv_entry self row = Inl e" by (simp add: log_data_row_Inl)
  with row show ?thesis by (auto simp: depenv_entry_Inl)
qed


lemma get_webviz_well_log_Inr:
  "get_webviz_well_log self w = Inr doc \<longleftrightarrow>
     (\<exists>d. get_log_data self w = Inr d \<and>
          doc = \<lparr>header = get_log_header self w, curves = get_log_curves, data = d,
                  metadata_discrete = get_log_metadata_discrete self\<rparr>)"
  by (cases "get_log_data self w") (auto simp: get_webviz_well_log_def)

lemma list_all2_in_set_right:
  "list_all2 P xs ys \<Longrightarrow> y \<in> set ys \<Longrightarrow> \<exists>x\<in>set xs. P x y"
  by (induction rule: list_all2_induct) auto

lemma list_all2_map_eq:
  "list_all2 P xs ys \<Longrightarrow> (\<And>x y. P x y \<Longrightarrow> f y = g x) \<Longrightarrow> map f ys = map g xs"
  by (induction rule: list_all2_induct) auto

lemma get_log_data_codes:
  assumes "get_log_data self w = Inr d"
  shows "map (\<lambda>(md, depenv, code). Some code) d =
         map (map_of (lithostrat_codes self)) (map Lithostrat_unit (rows_of_well self w))"
proof -
  from assms have "list_all2 (\<lambda>row r. log_data_row self row = Inr r) (rows_of_well self w) d"
    by (simp add: get_log_data_Inr)
  then have "map (\<lambda>(md, depenv, code). Some code) d =
             map (\<lambda>row. map_of (lithostrat_codes self) (Lithostrat_unit row)) (rows_of_well self w)"
    by (rule list_all2_map_eq) (auto simp: log_data_row_Inr)
  then show ?thesis by (simp add: comp_def)
qed

lemma lithostrat_codes_cong:
  "unique (map Lithostrat_unit (lithostrat_df s1)) = unique (map Lithostrat_unit (lithostrat_df s2))
   \<Longrightarrow> lithostrat_codes s1 = lithostrat_codes s2"
  by (simp add: lithostrat_codes_def)

lemma log_data_loop_cong:
  assumes "dep_environments s1 = dep_environments s2" "lithostrat_codes s1 = lithostrat_codes s2"
  shows "log_data_loop s1 rows acc = log_data_loop s2 rows acc"
proof (induction rows arbitrary: acc)
  case Nil
  then show ?case by simp
next
  case (Cons row rows)
  have "log_data_row s1 row = log_data_row s2 row"
    unfolding log_data_row_def depenv_entry_def assms by (rule refl)
  then show ?case by (simp add: Cons.IH split: sum.splits)
qed

lemma series_min_nonempty: "xs \<noteq> [] \<Longrightarrow> series_min xs = Num (Min (set xs))"
  by (cases xs) (simp_all add: series_min_def Min.set_eq_fold [symmetric])

lemma series_max_nonempty: "xs \<noteq> [] \<Longrightarrow> series_max xs = Num (Max (set xs))"
  by (cases xs) (simp_all add: series_max_def Max.set_eq_fold [symmetric])

lemma set_rows_of_well:
  "set (rows_of_well self w) = {r \<in> set (lithostrat_df self). unique_wellbore_identifier r = w}"
  by (auto simp: rows_of_well_def)

subsection \<open>The merged metadata\<close>

lemma map_of_fold_update:
  "map_of (fold (\<lambda>(k, v) d. AList.update k v d) kvs d) k =
     (case map_of (rev kvs) k of None \<Rightarrow> map_of d k | Some v \<Rightarrow> Some v)"
proof (induction kvs arbitrary: d)
  case Nil
  then show ?case by simp
next
  case (Cons kv kvs)
  obtain k' v' where kv: "kv = (k', v')" by (cases kv)
  show ?case
    by (simp add: kv Cons.IH update_conv' map_add_def split: option.splits)
qed

lemma dict_of_items_key:
  assumes "k \<in> fst ` set kvs"
  shows "\<exists>v. (k, v) \<in> set (dict_of_items kvs) \<and> (k, v) \<in> set kvs"
proof -
  from assms have "k \<in> fst ` set (rev kvs)" by simp
  then obtain v where v: "map_of (rev kvs) k = Some v"
    by (metis map_of_eq_None_iff not_Some_eq)
  then have "map_of (dict_of_items kvs) k = Some v"
    by (simp add: dict_of_items_def map_of_fold_update)
  then have "(k, v) \<in> set (dict_of_items kvs)" by (rule map_of_SomeD)
  moreover from v have "(k, v) \<in> set kvs" using map_of_SomeD by fastforce
  ultimately show ?thesis by blast
qed

lemma get_log_metadata_discrete_blocks:
  "get_log_metadata_discrete self =
     [(''Lithostrat_unit'',
       \<lparr>attributes = [''color'', ''code''],
        objects = map (\<lambda>(label, code). (label, ([0, 0, 0, 255], code))) (lithostrat_codes self)\<rparr>),
      (''DepositionalEnvironment'',
       \<lparr>attributes = [''color'', ''code''],
        objects = dict_of_items
          (map (\<lambda>row. (DEPOSITIONAL_ENVIRONMENT row,
                        ([col_R row, col_G row, col_B row, 255], SMDA_code row)))
             (dep_environments self))\<rparr>)]"
proof -
  have "map fst (map (\<lambda>(label, code). (label, ([0::int, 0, 0, 255], code))) (lithostrat_codes self))
          = map fst (lithostrat_codes self)"
    by (simp add: comp_def case_prod_unfold)
  then have "distinct (map fst (map (\<lambda>(label, code). (label, ([0::int, 0, 0, 255], code)))
               (lithostrat_codes self)))"
    by (simp only: lithostrat_codes_keys distinct_unique)
  then have "dict_of_items (map (\<lambda>(label, code). (label, ([0::int, 0, 0, 255], code)))
               (lithostrat_codes self)) =
             map (\<lambda>(label, code). (label, ([0, 0, 0, 255], code))) (lithostrat_codes self)"
    by (rule dict_of_items_distinct)
  then show ?thesis
    by (simp add: get_log_metadata_discrete_def get_webviz_well_log_metadata_def dict_update_def)
qed

lemma lithostrat_entry:
  assumes "map_of (lithostrat_codes self) label = Some code"
  shows "has_entry (get_log_metadata_discrete self) ''Lithostrat_unit'' code"
proof -
  from assms have "(label, code) \<in> set (lithostrat_codes self)" by (rule map_of_SomeD)
  then have "code \<in> snd ` set (lithostrat_codes self)" by force
  then show ?thesis
    by (simp add: has_entry_def get_log_metadata_discrete_blocks comp_def case_prod_unfold)
qed

lemma depenv_entry_metadata:
  assumes fd: "\<forall>r1\<in>set (dep_environments self). \<forall>r2\<in>set (dep_environments self).
                 DEPOSITIONAL_ENVIRONMENT r1 = DEPOSITIONAL_ENVIRONMENT r2 \<longrightarrow>
                 SMDA_code r1 = SMDA_code r2"
    and res: "get_smda_code_for_dep_environment (dep_environments self) s = Inr c"
  shows "has_entry (get_log_metadata_discrete self) ''DepositionalEnvironment'' c"
proof -
  let ?kvs = "map (\<lambda>row. (DEPOSITIONAL_ENVIRONMENT row,
                        ([col_R row, col_G row, col_B row, 255], SMDA_code row)))
             (dep_environments self)"
  from res obtain r where r: "r \<in> set (dep_environments self)" and c: "SMDA_code r = c"
    using resolve_Inr_row by blast
  from r have "DEPOSITIONAL_ENVIRONMENT r \<in> fst ` set ?kvs" by force
  from dict_of_items_key [OF this]
  obtain v where v: "(DEPOSITIONAL_ENVIRONMENT r, v) \<in> set (dict_of_items ?kvs)"
    and v': "(DEPOSITIONAL_ENVIRONMENT r, v) \<in> set ?kvs"
    by (elim exE conjE)
  from v' obtain r' where r': "r' \<in> set (dep_environments self)"
    and lab: "DEPOSITIONAL_ENVIRONMENT r' = DEPOSITIONAL_ENVIRONMENT r"
    and val: "v = ([col_R r', col_G r', col_B r', 255], SMDA_code r')"
    by auto
  from fd r r' lab have "SMDA_code r' = c" using c by metis
  with v val have "c \<in> (\<lambda>(label, color, code). code) ` set (dict_of_items ?kvs)"
    by force
  then show ?thesis
    by (simp add: has_entry_def get_log_metadata_discrete_blocks)
qed

subsection \<open>The list of documents of a selection\<close>

lemma well_logs_Inr:
  "well_logs lith ws = Inr docs \<longleftrightarrow>
     list_all2 (\<lambda>w doc. get_webviz_well_log lith w = Inr doc) ws docs"
proof (induction ws arbitrary: docs)
  case Nil
  then show ?case by auto
next
  case (Cons w ws)
  show ?case
  proof (cases "get_webviz_well_log lith w")
    case (Inl e)
    then show ?thesis by (simp add: list_all2_Cons1)
  next
    case (Inr doc)
    show ?thesis
    proof (cases "well_logs lith ws")
      case (Inl e)
      with Cons.IH have "\<not> list_all2 (\<lambda>w doc. get_webviz_well_log lith w = Inr doc) ws ds" for ds
        by (metis sum.distinct(1))
      then show ?thesis using Inr Inl by (simp add: list_all2_Cons1)
    next
      case rest: (Inr ds)
      with Cons.IH have "list_all2 (\<lambda>w doc. get_webviz_well_log lith w = Inr doc) ws ds' \<longleftrightarrow> ds' = ds" for ds'
        by (metis sum.inject(2))
      then show ?thesis using Inr rest by (auto simp: list_all2_Cons1)
    qed
  qed
qed

lemma well_logs_fails:
  "w \<in> set ws \<Longrightarrow> isl (get_webviz_well_log lith w) \<Longrightarrow> isl (well_logs lith ws)"
  by (induction ws) (auto split: sum.splits)

lemma well_logs_succeeds:
  "\<forall>w\<in>set ws. \<exists>doc. get_webviz_well_log lith w = Inr doc \<Longrightarrow> \<exists>docs. well_logs lith ws = Inr docs"
  by (induction ws) (auto split: sum.splits)

section \<open>Code Standard Resolver\<close>

text \<open>
  Claim C1, as stated, at its own scenario: the table holds the one entry ``Marine'' with
  code 7 and the queried value is ``marine deposits''. The pattern ``marine deposits'' is
  searched for inside the label ``Marine'' and is not found there, the selection is
  empty, and \<^verbatim>\<open>.values[0]\<close> raises \<^verbatim>\<open>IndexError\<close>: no code is returned.
\<close>

theorem marine_deposits_not_resolved:
  "get_smda_code_for_dep_environment
     [\<lparr>DEPOSITIONAL_ENVIRONMENT = ''Marine'', SMDA_code = 7, col_R = 0, col_G = 0, col_B = 255\<rparr>]
     ''marine deposits'' = Inl IndexError"
  by code_simp

text \<open>
  Claim C1, amended: the containment runs the other way. A lookup succeeds whenever the
  queried value, plain ASCII text free of the characters \<^verbatim>\<open>re\<close> interprets, occurs
  case-insensitively inside the label of some entry of the table, whatever the labels
  are; when that entry is the only one, its code is the result (for the entry ``Marine''
  with code 7 the queries ``marine'' or ``MAR'' give 7).
\<close>

theorem resolve_succeeds_when_query_occurs_in_label:
  assumes "plain_text q"
    and "e \<in> set df"
    and "ci_substring q (DEPOSITIONAL_ENVIRONMENT e)"
  shows "\<exists>c. get_smda_code_for_dep_environment df q = Inr c \<and> (df = [e] \<longrightarrow> c = SMDA_code e)"
proof -
  let ?hits = "filter (\<lambda>r. ci_substring q (DEPOSITIONAL_ENVIRONMENT r)) df"
  have "e \<in> set ?hits" using assms(2,3) by simp
  then obtain r rest where hits: "?hits = r # rest" by (cases ?hits) auto
  have res: "get_smda_code_for_dep_environment df q = Inr (SMDA_code r)"
    using resolve_plain [OF assms(1)] by (simp add: hits)
  have "r = e" if "df = [e]" using hits that by (auto split: if_splits)
  with res show ?thesis by blast
qed

theorem resolve_succeeds_when_query_occurs_in_label_witness:
  "plain_text ''marine'' \<and> ci_substring ''marine'' ''Marine'' \<and>
   get_smda_code_for_dep_environment
     [\<lparr>DEPOSITIONAL_ENVIRONMENT = ''Marine'', SMDA_code = 7, col_R = 0, col_G = 0, col_B = 255\<rparr>]
     ''marine'' = Inr 7"
proof -
  let ?e = "\<lparr>DEPOSITIONAL_ENVIRONMENT = ''Marine'', SMDA_code = 7, col_R = 0, col_G = 0, col_B = 255\<rparr>"
  have p: "plain_text ''marine''" by code_simp
  have m: "?e \<in> set [?e]" by simp
  have c: "ci_substring ''marine'' (DEPOSITIONAL_ENVIRONMENT ?e)" by code_simp
  from resolve_succeeds_when_query_occurs_in_label [OF p m c]
  have "get_smda_code_for_dep_environment [?e] ''marine'' = Inr (SMDA_code ?e)" by auto
  moreover have "ci_substring ''marine'' ''Marine''" using c by simp
  ultimately show ?thesis using p by simp
qed

text \<open>
  Claim C3, as stated, fails at the argument ``('': no label contains an opening
  parenthesis, so no entry matches it as a substring, yet the exception raised is
  \<^verbatim>\<open>re.error\<close>, which is no \<^verbatim>\<open>LookupError\<close>.
\<close>

theorem unbalanced_parenthesis_not_a_lookup_error:
  "get_smda_code_for_dep_environment
     [\<lparr>DEPOSITIONAL_ENVIRONMENT = ''Marine'', SMDA_code = 7, col_R = 0, col_G = 0, col_B = 255\<rparr>]
     ''('' = Inl ReError \<and>
   \<not> is_LookupError ReError \<and> \<not> ci_substring ''('' ''Marine''"
  by code_simp

text \<open>
  Claim C3, amended: for an argument that is plain ASCII text (free of the characters
  \<^verbatim>\<open>re\<close> interprets) and any table, the result is the code of the first entry, in
  table order, whose label contains the argument case-insensitively, and
  \<^verbatim>\<open>IndexError\<close>, a \<^verbatim>\<open>LookupError\<close>, when no entry does.
\<close>

theorem resolve_plain_text_first_match:
  assumes "plain_text q"
  shows "get_smda_code_for_dep_environment df q =
           (case filter (\<lambda>r. ci_substring q (DEPOSITIONAL_ENVIRONMENT r)) df of
              [] \<Rightarrow> Inl IndexError
            | r # _ \<Rightarrow> Inr (SMDA_code r)) \<and>
         is_LookupError IndexError"
  using resolve_plain [OF assms] by simp

theorem resolve_plain_text_first_match_witness:
  "get_smda_code_for_dep_environment
     [\<lparr>DEPOSITIONAL_ENVIRONMENT = ''Fluvial'', SMDA_code = 3, col_R = 255, col_G = 0, col_B = 0\<rparr>,
      \<lparr>DEPOSITIONAL_ENVIRONMENT = ''Marine'', SMDA_code = 7, col_R = 0, col_G = 0, col_B = 255\<rparr>,
      \<lparr>DEPOSITIONAL_ENVIRONMENT = ''Shallow marine'', SMDA_code = 8, col_R = 0, col_G = 255, col_B = 255\<rparr>]
     ''MARINE'' = Inr 7 \<and>
   get_smda_code_for_dep_environment
     [\<lparr>DEPOSITIONAL_ENVIRONMENT = ''Fluvial'', SMDA_code = 3, col_R = 255, col_G = 0, col_B = 0\<rparr>]
     ''delta'' = Inl IndexError"
proof -
  let ?f = "\<lparr>DEPOSITIONAL_ENVIRONMENT = ''Fluvial'', SMDA_code = 3, col_R = 255, col_G = 0, col_B = 0\<rparr>"
  let ?m = "\<lparr>DEPOSITIONAL_ENVIRONMENT = ''Marine'', SMDA_code = 7, col_R = 0, col_G = 0, col_B = 255\<rparr>"
  let ?s = "\<lparr>DEPOSITIONAL_ENVIRONMENT = ''Shallow marine'', SMDA_code = 8, col_R = 0, col_G = 255, col_B = 255\<rparr>"
  have p1: "plain_text ''MARINE''" by code_simp
  have h1: "filter (\<lambda>r. ci_substring ''MARINE'' (DEPOSITIONAL_ENVIRONMENT r)) [?f, ?m, ?s] = [?m, ?s]"
    by code_simp
  have p2: "plain_text ''delta''" by code_simp
  have h2: "filter (\<lambda>r. ci_substring ''delta'' (DEPOSITIONAL_ENVIRONMENT r)) [?f] = []"
    by code_simp
  from resolve_plain_text_first_match [OF p1, of "[?f, ?m, ?s]"]
  have "get_smda_code_for_dep_environment [?f, ?m, ?s] ''MARINE'' = Inr 7"
    unfolding h1 by simp
  moreover from resolve_plain_text_first_match [OF p2, of "[?f]"]
  have "get_smda_code_for_dep_environment [?f] ''delta'' = Inl IndexError"
    unfolding h2 by simp
  ultimately show ?thesis by simp
qed

text \<open>
  Claim C10: the argument is a regular expression. An unbalanced parenthesis raises
  \<^verbatim>\<open>re.error\<close> on every table, and that exception is no \<^verbatim>\<open>LookupError\<close>; the
  argument ``.'' selects the entry ``Fluvial'', whose label contains no dot.
\<close>

theorem resolve_argument_is_a_pattern:
  "get_smda_code_for_dep_environment df ''('' = Inl ReError \<and>
   \<not> is_LookupError ReError \<and>
   get_smda_code_for_dep_environment
     [\<lparr>DEPOSITIONAL_ENVIRONMENT = ''Fluvial'', SMDA_code = 3, col_R = 255, col_G = 0, col_B = 0\<rparr>]
     ''.'' = Inr 3 \<and>
   \<not> ci_substring ''.'' ''Fluvial''"
proof -
  have "re_compile ''('' = Inl ReError" by code_simp
  then have "get_smda_code_for_dep_environment df ''('' = Inl ReError"
    by (simp add: get_smda_code_for_dep_environment_def str_contains_def)
  moreover have "get_smda_code_for_dep_environment
     [\<lparr>DEPOSITIONAL_ENVIRONMENT = ''Fluvial'', SMDA_code = 3, col_R = 255, col_G = 0, col_B = 0\<rparr>]
     ''.'' = Inr 3" by code_simp
  moreover have "\<not> ci_substring ''.'' ''Fluvial''" by code_simp
  ultimately show ?thesis by simp
qed

section \<open>Log Document Builder\<close>



text \<open>
  Claim C8: for a well with at least one row in the table, the header has as
  \<^verbatim>\<open>startIndex\<close> the least \<^verbatim>\<open>Depth_top\<close> and as \<^verbatim>\<open>endIndex\<close> the greatest
  \<^verbatim>\<open>Depth_base\<close> over the rows of that well, and \<^verbatim>\<open>step\<close> is \<^verbatim>\<open>None\<close>; the document that
  \<^verbatim>\<open>get_webviz_well_log\<close> returns carries this header.
\<close>

theorem header_depth_bounds:
  assumes "r \<in> set (lithostrat_df self)" and "unique_wellbore_identifier r = w"
  shows "get_log_header self w =
           \<lparr>header_name = ''BLOCKING'', well = w,
            startIndex = Num (Min (Depth_top `
               {r \<in> set (lithostrat_df self). unique_wellbore_identifier r = w})),
            endIndex = Num (Max (Depth_base `
               {r \<in> set (lithostrat_df self). unique_wellbore_identifier r = w})),
            step = None\<rparr> \<and>
         (\<forall>doc. get_webviz_well_log self w = Inr doc \<longrightarrow> header doc = get_log_header self w)"
proof -
  have "r \<in> set (rows_of_well self w)" using assms by (simp add: set_rows_of_well)
  then have ne: "rows_of_well self w \<noteq> []" by auto
  have "get_log_header self w =
           \<lparr>header_name = ''BLOCKING'', well = w,
            startIndex = Num (Min (Depth_top ` set (rows_of_well self w))),
            endIndex = Num (Max (Depth_base ` set (rows_of_well self w))),
            step = None\<rparr>"
    using ne by (simp add: get_log_header_def Let_def series_min_nonempty series_max_nonempty)
  moreover have "header doc = get_log_header self w" if "get_webviz_well_log self w = Inr doc" for doc
    using that by (auto simp: get_webviz_well_log_def split: sum.splits)
  ultimately show ?thesis by (simp add: set_rows_of_well)
qed

theorem header_depth_bounds_witness:
  "get_log_header
     \<lparr>lithostrat_df =
        [\<lparr>unique_wellbore_identifier = ''A-1'', Depth_top = 3200, Depth_base = 4879,
          Lithostrat_unit = ''Sand'', Depositional_Environment = None\<rparr>,
         \<lparr>unique_wellbore_identifier = ''B-2'', Depth_top = 10, Depth_base = 9000,
          Lithostrat_unit = ''Chalk'', Depositional_Environment = None\<rparr>,
         \<lparr>unique_wellbore_identifier = ''A-1'', Depth_top = 3069, Depth_base = 3200,
          Lithostrat_unit = ''Shale'', Depositional_Environment = None\<rparr>],
      dep_environments = []\<rparr>
     ''A-1'' =
   \<lparr>header_name = ''BLOCKING'', well = ''A-1'', startIndex = Num 3069, endIndex = Num 4879,
    step = None\<rparr> \<and>
   map_sum id header
     (get_webviz_well_log
        \<lparr>lithostrat_df =
          [\<lparr>unique_wellbore_identifier = ''A-1'', Depth_top = 3200, Depth_base = 4879,
            Lithostrat_unit = ''Sand'', Depositional_Environment = None\<rparr>,
           \<lparr>unique_wellbore_identifier = ''B-2'', Depth_top = 10, Depth_base = 9000,
            Lithostrat_unit = ''Chalk'', Depositional_Environment = None\<rparr>,
           \<lparr>unique_wellbore_identifier = ''A-1'', Depth_top = 3069, Depth_base = 3200,
            Lithostrat_unit = ''Shale'', Depositional_Environment = None\<rparr>],
         dep_environments = []\<rparr>
        ''A-1'') =
   Inr \<lparr>header_name = ''BLOCKING'', well = ''A-1'', startIndex = Num 3069, endIndex = Num 4879,
        step = None\<rparr>"
proof -
  let ?r1 = "\<lparr>unique_wellbore_identifier = ''A-1'', Depth_top = 3200, Depth_base = 4879,
          Lithostrat_unit = ''Sand'', Depositional_Environment = None\<rparr>"
  let ?r2 = "\<lparr>unique_wellbore_identifier = ''B-2'', Depth_top = 10, Depth_base = 9000,
          Lithostrat_unit = ''Chalk'', Depositional_Environment = None\<rparr>"
  let ?r3 = "\<lparr>unique_wellbore_identifier = ''A-1'', Depth_top = 3069, Depth_base = 3200,
          Lithostrat_unit = ''Shale'', Depositional_Environment = None\<rparr>"
  let ?self = "\<lparr>lithostrat_df = [?r1, ?r2, ?r3], dep_environments = []\<rparr>"
  have m: "?r1 \<in> set (lithostrat_df ?self)" by simp
  have w: "unique_wellbore_identifier ?r1 = ''A-1''" by simp
  have rows: "{r \<in> set (lithostrat_df ?self). unique_wellbore_identifier r = ''A-1''} = {?r1, ?r3}"
    by auto
  have built: "get_webviz_well_log ?self ''A-1'' =
      Inr \<lparr>header = get_log_header ?self ''A-1'', curves = get_log_curves,
           data = [(3200, None, 0), (3069, None, 2)],
           metadata_discrete = get_log_metadata_discrete ?self\<rparr>"
    by code_simp
  from header_depth_bounds [OF m w]
  have hd: "get_log_header ?self ''A-1'' =
      \<lparr>header_name = ''BLOCKING'', well = ''A-1'', startIndex = Num 3069, endIndex = Num 4879,
       step = None\<rparr>"
    and doc: "\<forall>doc. get_webviz_well_log ?self ''A-1'' = Inr doc \<longrightarrow>
                header doc = get_log_header ?self ''A-1''"
    unfolding rows by simp_all
  from doc built have "map_sum id header (get_webviz_well_log ?self ''A-1'') =
      Inr (get_log_header ?self ''A-1'')"
    by simp
  with hd show ?thesis by simp
qed

text \<open>
  Claim C6, as stated, fails for the well ``B-2'' on a table that holds rows of ``A-1''
  only: no exception is raised, and the document returned has NaN as \<^verbatim>\<open>startIndex\<close> and
  \<^verbatim>\<open>endIndex\<close> and no data rows.
\<close>

theorem unknown_well_returns_document:
  "get_webviz_well_log
     \<lparr>lithostrat_df =
        [\<lparr>unique_wellbore_identifier = ''A-1'', Depth_top = 100, Depth_base = 200,
          Lithostrat_unit = ''Sand'', Depositional_Environment = None\<rparr>],
      dep_environments =
        [\<lparr>DEPOSITIONAL_ENVIRONMENT = ''Marine'', SMDA_code = 7, col_R = 0, col_G = 0, col_B = 255\<rparr>]\<rparr>
     ''B-2'' =
   Inr \<lparr>header = \<lparr>header_name = ''BLOCKING'', well = ''B-2'', startIndex = NaN,
                    endIndex = NaN, step = None\<rparr>,
        curves = get_log_curves,
        data = [],
        metadata_discrete =
          [(''Lithostrat_unit'',
            \<lparr>attributes = [''color'', ''code''],
             objects = [(''Sand'', ([0, 0, 0, 255], 0))]\<rparr>),
           (''DepositionalEnvironment'',
            \<lparr>attributes = [''color'', ''code''],
             objects = [(''Marine'', ([0, 0, 255, 255], 7))]\<rparr>)]\<rparr>"
  by code_simp

text \<open>
  Claim C6, amended: for a well identifier that no row of the table carries,
  \<^verbatim>\<open>get_webviz_well_log\<close> raises nothing and returns the document whose header has NaN
  for both depth bounds (the minimum and maximum of an empty column) and \<^verbatim>\<open>None\<close> as
  step, with the three fixed curves, no data rows and the metadata of the whole table.
\<close>

theorem no_rows_document:
  assumes "\<forall>r\<in>set (lithostrat_df self). unique_wellbore_identifier r \<noteq> w"
  shows "get_webviz_well_log self w =
           Inr \<lparr>header = \<lparr>header_name = ''BLOCKING'', well = w, startIndex = NaN,
                            endIndex = NaN, step = None\<rparr>,
                curves = get_log_curves,
                data = [],
                metadata_discrete = get_log_metadata_discrete self\<rparr>"
proof -
  have "rows_of_well self w = []"
    using assms by (simp add: rows_of_well_def filter_empty_conv)
  then show ?thesis
    by (simp add: get_webviz_well_log_def get_log_data_def get_log_header_def
        series_min_def series_max_def)
qed

theorem no_rows_document_witness:
  "get_webviz_well_log
     \<lparr>lithostrat_df =
        [\<lparr>unique_wellbore_identifier = ''A-1'', Depth_top = 100, Depth_base = 200,
          Lithostrat_unit = ''Sand'', Depositional_Environment = Some ''delta''\<rparr>],
      dep_environments = []\<rparr>
     ''C-3'' =
   Inr \<lparr>header = \<lparr>header_name = ''BLOCKING'', well = ''C-3'', startIndex = NaN,
                    endIndex = NaN, step = None\<rparr>,
        curves = get_log_curves,
        data = [],
        metadata_discrete =
          [(''Lithostrat_unit'',
            \<lparr>attributes = [''color'', ''code''],
             objects = [(''Sand'', ([0, 0, 0, 255], 0))]\<rparr>),
           (''DepositionalEnvironment'',
            \<lparr>attributes = [''color'', ''code''], objects = []\<rparr>)]\<rparr>"
proof -
  let ?self = "\<lparr>lithostrat_df =
        [\<lparr>unique_wellbore_identifier = ''A-1'', Depth_top = 100, Depth_base = 200,
          Lithostrat_unit = ''Sand'', Depositional_Environment = Some ''delta''\<rparr>],
      dep_environments = []\<rparr>"
  have none: "\<forall>r\<in>set (lithostrat_df ?self). unique_wellbore_identifier r \<noteq> ''C-3''"
    by simp
  have md: "get_log_metadata_discrete ?self =
          [(''Lithostrat_unit'',
            \<lparr>attributes = [''color'', ''code''],
             objects = [(''Sand'', ([0, 0, 0, 255], 0))]\<rparr>),
           (''DepositionalEnvironment'',
            \<lparr>attributes = [''color'', ''code''], objects = []\<rparr>)]"
    by code_simp
  from no_rows_document [OF none] show ?thesis
    unfolding md .
qed

text \<open>
  Claim C4, as stated, fails on two tables that hold the same single row for ``A-1'':
  in the second a row of ``B-2'' with the unit ``Chalk'' comes first, so that ``Sand''
  gets code 1 instead of 0 and the two documents for ``A-1'' differ. The code table is
  computed from the whole table, not from the rows of the requested well.
\<close>

theorem other_wells_change_the_document:
  "rows_of_well
     \<lparr>lithostrat_df =
        [\<lparr>unique_wellbore_identifier = ''A-1'', Depth_top = 100, Depth_base = 200,
          Lithostrat_unit = ''Sand'', Depositional_Environment = None\<rparr>],
      dep_environments = []\<rparr> ''A-1'' =
   rows_of_well
     \<lparr>lithostrat_df =
        [\<lparr>unique_wellbore_identifier = ''B-2'', Depth_top = 10, Depth_base = 20,
          Lithostrat_unit = ''Chalk'', Depositional_Environment = None\<rparr>,
         \<lparr>unique_wellbore_identifier = ''A-1'', Depth_top = 100, Depth_base = 200,
          Lithostrat_unit = ''Sand'', Depositional_Environment = None\<rparr>],
      dep_environments = []\<rparr> ''A-1'' \<and>
   map_sum id data (get_webviz_well_log
     \<lparr>lithostrat_df =
        [\<lparr>unique_wellbore_identifier = ''A-1'', Depth_top = 100, Depth_base = 200,
          Lithostrat_unit = ''Sand'', Depositional_Environment = None\<rparr>],
      dep_environments = []\<rparr> ''A-1'') = Inr [(100, None, 0)] \<and>
   map_sum id data (get_webviz_well_log
     \<lparr>lithostrat_df =
        [\<lparr>unique_wellbore_identifier = ''B-2'', Depth_top = 10, Depth_base = 20,
          Lithostrat_unit = ''Chalk'', Depositional_Environment = None\<rparr>,
         \<lparr>unique_wellbore_identifier = ''A-1'', Depth_top = 100, Depth_base = 200,
          Lithostrat_unit = ''Sand'', Depositional_Environment = None\<rparr>],
      dep_environments = []\<rparr> ''A-1'') = Inr [(100, None, 1)] \<and>
   get_webviz_well_log
     \<lparr>lithostrat_df =
        [\<lparr>unique_wellbore_identifier = ''A-1'', Depth_top = 100, Depth_base = 200,
          Lithostrat_unit = ''Sand'', Depositional_Environment = None\<rparr>],
      dep_environments = []\<rparr> ''A-1'' \<noteq>
   get_webviz_well_log
     \<lparr>lithostrat_df =
        [\<lparr>unique_wellbore_identifier = ''B-2'', Depth_top = 10, Depth_base = 20,
          Lithostrat_unit = ''Chalk'', Depositional_Environment = None\<rparr>,
         \<lparr>unique_wellbore_identifier = ''A-1'', Depth_top = 100, Depth_base = 200,
          Lithostrat_unit = ''Sand'', Depositional_Environment = None\<rparr>],
      dep_environments = []\<rparr> ''A-1''"
  by code_simp

text \<open>
  Claim C4, amended: the document of a well depends on the rows of that well, on the
  reference table, and on the distinct stratigraphic units of the whole table in the
  order of their first occurrence. Two tables that agree on these three yield the same
  result for the well, whatever else the rows of other wells hold.
\<close>

theorem document_depends_on_rows_and_label_order:
  assumes "rows_of_well s1 w = rows_of_well s2 w"
    and "dep_environments s1 = dep_environments s2"
    and "unique (map Lithostrat_unit (lithostrat_df s1)) =
         unique (map Lithostrat_unit (lithostrat_df s2))"
  shows "get_webviz_well_log s1 w = get_webviz_well_log s2 w"
proof -
  have codes: "lithostrat_codes s1 = lithostrat_codes s2"
    using assms(3) by (rule lithostrat_codes_cong)
  have rows: "get_log_data s1 w = get_log_data s2 w"
    unfolding get_log_data_def assms(1) using assms(2) codes by (rule log_data_loop_cong)
  have hd: "get_log_header s1 w = get_log_header s2 w"
    by (simp add: get_log_header_def assms(1))
  have md: "get_log_metadata_discrete s1 = get_log_metadata_discrete s2"
    by (simp add: get_log_metadata_discrete_def codes assms(2))
  show ?thesis
    unfolding get_webviz_well_log_def rows hd md by (rule refl)
qed

theorem document_depends_on_rows_and_label_order_witness:
  "get_webviz_well_log
     \<lparr>lithostrat_df =
        [\<lparr>unique_wellbore_identifier = ''A-1'', Depth_top = 100, Depth_base = 200,
          Lithostrat_unit = ''Sand'', Depositional_Environment = None\<rparr>,
         \<lparr>unique_wellbore_identifier = ''B-2'', Depth_top = 10, Depth_base = 20,
          Lithostrat_unit = ''Shale'', Depositional_Environment = None\<rparr>],
      dep_environments = []\<rparr> ''A-1'' =
   get_webviz_well_log
     \<lparr>lithostrat_df =
        [\<lparr>unique_wellbore_identifier = ''A-1'', Depth_top = 100, Depth_base = 200,
          Lithostrat_unit = ''Sand'', Depositional_Environment = None\<rparr>,
         \<lparr>unique_wellbore_identifier = ''C-3'', Depth_top = 30, Depth_base = 40,
          Lithostrat_unit = ''Shale'', Depositional_Environment = None\<rparr>,
         \<lparr>unique_wellbore_identifier = ''C-3'', Depth_top = 40, Depth_base = 50,
          Lithostrat_unit = ''Sand'', Depositional_Environment = None\<rparr>],
      dep_environments = []\<rparr> ''A-1''"
proof -
  let ?a = "\<lparr>unique_wellbore_identifier = ''A-1'', Depth_top = 100, Depth_base = 200,
          Lithostrat_unit = ''Sand'', Depositional_Environment = None\<rparr>"
  let ?s1 = "\<lparr>lithostrat_df =
        [?a,
         \<lparr>unique_wellbore_identifier = ''B-2'', Depth_top = 10, Depth_base = 20,
          Lithostrat_unit = ''Shale'', Depositional_Environment = None\<rparr>],
      dep_environments = []\<rparr>"
  let ?s2 = "\<lparr>lithostrat_df =
        [?a,
         \<lparr>unique_wellbore_identifier = ''C-3'', Depth_top = 30, Depth_base = 40,
          Lithostrat_unit = ''Shale'', Depositional_Environment = None\<rparr>,
         \<lparr>unique_wellbore_identifier = ''C-3'', Depth_top = 40, Depth_base = 50,
          Lithostrat_unit = ''Sand'', Depositional_Environment = None\<rparr>],
      dep_environments = []\<rparr>"
  have rows: "rows_of_well ?s1 ''A-1'' = rows_of_well ?s2 ''A-1''" by code_simp
  have deps: "dep_environments ?s1 = dep_environments ?s2" by simp
  have labels: "unique (map Lithostrat_unit (lithostrat_df ?s1)) =
                unique (map Lithostrat_unit (lithostrat_df ?s2))" by code_simp
  from rows deps labels show ?thesis
    by (rule document_depends_on_rows_and_label_order)
qed

text \<open>
  Claim C5, as stated, fails on a table where a row of ``B-2'' with the unit ``Chalk''
  precedes the rows of ``A-1'' with the units ``Sand'', ``Shale'', ``Sand'': the code
  table maps ``Chalk'' to 0, ``Sand'' to 1 and ``Shale'' to 2, and the codes in the data
  rows of ``A-1'' are 1, 2, 1.
\<close>

theorem codes_shifted_by_other_well:
  "lithostrat_codes
     \<lparr>lithostrat_df =
        [\<lparr>unique_wellbore_identifier = ''B-2'', Depth_top = 10, Depth_base = 20,
          Lithostrat_unit = ''Chalk'', Depositional_Environment = None\<rparr>,
         \<lparr>unique_wellbore_identifier = ''A-1'', Depth_top = 100, Depth_base = 200,
          Lithostrat_unit = ''Sand'', Depositional_Environment = None\<rparr>,
         \<lparr>unique_wellbore_identifier = ''A-1'', Depth_top = 200, Depth_base = 300,
          Lithostrat_unit = ''Shale'', Depositional_Environment = None\<rparr>,
         \<lparr>unique_wellbore_identifier = ''A-1'', Depth_top = 300, Depth_base = 400,
          Lithostrat_unit = ''Sand'', Depositional_Environment = None\<rparr>],
      dep_environments = []\<rparr> =
     [(''Chalk'', 0), (''Sand'', 1), (''Shale'', 2)] \<and>
   map Lithostrat_unit (rows_of_well
     \<lparr>lithostrat_df =
        [\<lparr>unique_wellbore_identifier = ''B-2'', Depth_top = 10, Depth_base = 20,
          Lithostrat_unit = ''Chalk'', Depositional_Environment = None\<rparr>,
         \<lparr>unique_wellbore_identifier = ''A-1'', Depth_top = 100, Depth_base = 200,
          Lithostrat_unit = ''Sand'', Depositional_Environment = None\<rparr>,
         \<lparr>unique_wellbore_identifier = ''A-1'', Depth_top = 200, Depth_base = 300,
          Lithostrat_unit = ''Shale'', Depositional_Environment = None\<rparr>,
         \<lparr>unique_wellbore_identifier = ''A-1'', Depth_top = 300, Depth_base = 400,
          Lithostrat_unit = ''Sand'', Depositional_Environment = None\<rparr>],
      dep_environments = []\<rparr> ''A-1'') = [''Sand'', ''Shale'', ''Sand''] \<and>
   map_sum id data (get_webviz_well_log
     \<lparr>lithostrat_df =
        [\<lparr>unique_wellbore_identifier = ''B-2'', Depth_top = 10, Depth_base = 20,
          Lithostrat_unit = ''Chalk'', Depositional_Environment = None\<rparr>,
         \<lparr>unique_wellbore_identifier = ''A-1'', Depth_top = 100, Depth_base = 200,
          Lithostrat_unit = ''Sand'', Depositional_Environment = None\<rparr>,
         \<lparr>unique_wellbore_identifier = ''A-1'', Depth_top = 200, Depth_base = 300,
          Lithostrat_unit = ''Shale'', Depositional_Environment = None\<rparr>,
         \<lparr>unique_wellbore_identifier = ''A-1'', Depth_top = 300, Depth_base = 400,
          Lithostrat_unit = ''Sand'', Depositional_Environment = None\<rparr>],
      dep_environments = []\<rparr> ''A-1'') =
     Inr [(100, None, 1), (200, None, 2), (300, None, 1)]"
  by code_simp

text \<open>
  Claim C5, amended: when the rows of ``A-1'' carry the units ``Sand'', ``Shale'',
  ``Sand'' in that order and the distinct units of the whole table, in the order of
  their first occurrence, are ``Sand'', ``Shale'', the code table maps ``Sand'' to 0 and
  ``Shale'' to 1, and the document returned for ``A-1'' has the stratigraphic codes
  0, 1, 0 in its data rows. No document is returned only when the resolver raises on a
  row of ``A-1''.
\<close>

theorem sand_shale_sand_codes:
  assumes "map Lithostrat_unit (rows_of_well self ''A-1'') = [''Sand'', ''Shale'', ''Sand'']"
    and "unique (map Lithostrat_unit (lithostrat_df self)) = [''Sand'', ''Shale'']"
  shows "lithostrat_codes self = [(''Sand'', 0), (''Shale'', 1)] \<and>
         (case get_webviz_well_log self ''A-1'' of
            Inr doc \<Rightarrow> map (\<lambda>(md, depenv, code). code) (data doc) = [0, 1, 0]
          | Inl e \<Rightarrow>
              \<exists>row\<in>set (rows_of_well self ''A-1''). \<exists>s.
                 Depositional_Environment row = Some s \<and>
                 get_smda_code_for_dep_environment (dep_environments self) s = Inl e)"
proof -
  have codes: "lithostrat_codes self = [(''Sand'', 0), (''Shale'', 1)]"
    by (simp add: lithostrat_codes_zip assms(2))
  show ?thesis
  proof (cases "get_log_data self ''A-1''")
    case (Inl e)
    then have "\<exists>row\<in>set (rows_of_well self ''A-1''). \<exists>s.
                 Depositional_Environment row = Some s \<and>
                 get_smda_code_for_dep_environment (dep_environments self) s = Inl e"
      by (rule get_log_data_Inl)
    with codes Inl show ?thesis by (simp add: get_webviz_well_log_def)
  next
    case (Inr d)
    then have "map (\<lambda>(md, depenv, code). Some code) d = [Some 0, Some 1, Some 0]"
      by (simp add: get_log_data_codes assms(1) codes)
    then have "map Some (map (\<lambda>(md, depenv, code). code) d) = map Some [0, 1, 0]"
      by (simp add: comp_def case_prod_unfold)
    then have "map (\<lambda>(md, depenv, code). code) d = [0, 1, 0]"
      by (simp only: inj_map_eq_map [OF inj_Some])
    with codes Inr show ?thesis by (simp add: get_webviz_well_log_def)
  qed
qed

theorem sand_shale_sand_codes_witness:
  "lithostrat_codes
     \<lparr>lithostrat_df =
        [\<lparr>unique_wellbore_identifier = ''A-1'', Depth_top = 100, Depth_base = 200,
          Lithostrat_unit = ''Sand'', Depositional_Environment = Some ''marine''\<rparr>,
         \<lparr>unique_wellbore_identifier = ''A-1'', Depth_top = 200, Depth_base = 300,
          Lithostrat_unit = ''Shale'', Depositional_Environment = None\<rparr>,
         \<lparr>unique_wellbore_identifier = ''B-2'', Depth_top = 10, Depth_base = 20,
          Lithostrat_unit = ''Shale'', Depositional_Environment = None\<rparr>,
         \<lparr>unique_wellbore_identifier = ''A-1'', Depth_top = 300, Depth_base = 400,
          Lithostrat_unit = ''Sand'', Depositional_Environment = None\<rparr>],
      dep_environments =
        [\<lparr>DEPOSITIONAL_ENVIRONMENT = ''Marine'', SMDA_code = 7, col_R = 0, col_G = 0, col_B = 255\<rparr>]\<rparr> =
     [(''Sand'', 0), (''Shale'', 1)] \<and>
   map_sum id (\<lambda>doc. map (\<lambda>(md, depenv, code). code) (data doc))
     (get_webviz_well_log
       \<lparr>lithostrat_df =
          [\<lparr>unique_wellbore_identifier = ''A-1'', Depth_top = 100, Depth_base = 200,
            Lithostrat_unit = ''Sand'', Depositional_Environment = Some ''marine''\<rparr>,
           \<lparr>unique_wellbore_identifier = ''A-1'', Depth_top = 200, Depth_base = 300,
            Lithostrat_unit = ''Shale'', Depositional_Environment = None\<rparr>,
           \<lparr>unique_wellbore_identifier = ''B-2'', Depth_top = 10, Depth_base = 20,
            Lithostrat_unit = ''Shale'', Depositional_Environment = None\<rparr>,
           \<lparr>unique_wellbore_identifier = ''A-1'', Depth_top = 300, Depth_base = 400,
            Lithostrat_unit = ''Sand'', Depositional_Environment = None\<rparr>],
        dep_environments =
          [\<lparr>DEPOSITIONAL_ENVIRONMENT = ''Marine'', SMDA_code = 7, col_R = 0, col_G = 0, col_B = 255\<rparr>]\<rparr>
       ''A-1'') = Inr [0, 1, 0]"
proof -
  let ?self = "\<lparr>lithostrat_df =
          [\<lparr>unique_wellbore_identifier = ''A-1'', Depth_top = 100, Depth_base = 200,
            Lithostrat_unit = ''Sand'', Depositional_Environment = Some ''marine''\<rparr>,
           \<lparr>unique_wellbore_identifier = ''A-1'', Depth_top = 200, Depth_base = 300,
            Lithostrat_unit = ''Shale'', Depositional_Environment = None\<rparr>,
           \<lparr>unique_wellbore_identifier = ''B-2'', Depth_top = 10, Depth_base = 20,
            Lithostrat_unit = ''Shale'', Depositional_Environment = None\<rparr>,
           \<lparr>unique_wellbore_identifier = ''A-1'', Depth_top = 300, Depth_base = 400,
            Lithostrat_unit = ''Sand'', Depositional_Environment = None\<rparr>],
        dep_environments =
          [\<lparr>DEPOSITIONAL_ENVIRONMENT = ''Marine'', SMDA_code = 7, col_R = 0, col_G = 0, col_B = 255\<rparr>]\<rparr>"
  have labels: "map Lithostrat_unit (rows_of_well ?self ''A-1'') = [''Sand'', ''Shale'', ''Sand'']"
    by code_simp
  have uniq: "unique (map Lithostrat_unit (lithostrat_df ?self)) = [''Sand'', ''Shale'']"
    by code_simp
  have built: "get_webviz_well_log ?self ''A-1'' =
      Inr \<lparr>header = get_log_header ?self ''A-1'', curves = get_log_curves,
           data = [(100, Some 7, 0), (200, None, 1), (300, None, 0)],
           metadata_discrete = get_log_metadata_discrete ?self\<rparr>"
    by code_simp
  from sand_shale_sand_codes [OF labels uniq]
  have "lithostrat_codes ?self = [(''Sand'', 0), (''Shale'', 1)]"
    and "case get_webviz_well_log ?self ''A-1'' of
            Inr doc \<Rightarrow> map (\<lambda>(md, depenv, code). code) (data doc) = [0, 1, 0]
          | Inl e \<Rightarrow>
              \<exists>row\<in>set (rows_of_well ?self ''A-1''). \<exists>s.
                 Depositional_Environment row = Some s \<and>
                 get_smda_code_for_dep_environment (dep_environments ?self) s = Inl e"
    by blast+
  then show ?thesis unfolding built by simp
qed

text \<open>
  Claim C7, as stated, fails on a reference table with two entries of the label
  ``Marine'', with codes 7 and 8: the resolver returns the code of the first, 7, for the
  row of ``A-1'', while the dict of the metadata block keeps under the key ``Marine''
  the entry written last, with code 8. The data row holds 7 and no entry has that code.
\<close>

theorem duplicate_label_code_without_entry:
  "get_webviz_well_log
     \<lparr>lithostrat_df =
        [\<lparr>unique_wellbore_identifier = ''A-1'', Depth_top = 100, Depth_base = 200,
          Lithostrat_unit = ''Sand'', Depositional_Environment = Some ''Marine''\<rparr>],
      dep_environments =
        [\<lparr>DEPOSITIONAL_ENVIRONMENT = ''Marine'', SMDA_code = 7, col_R = 0, col_G = 0, col_B = 255\<rparr>,
         \<lparr>DEPOSITIONAL_ENVIRONMENT = ''Marine'', SMDA_code = 8, col_R = 0, col_G = 0, col_B = 128\<rparr>]\<rparr>
     ''A-1'' =
   Inr \<lparr>header = \<lparr>header_name = ''BLOCKING'', well = ''A-1'', startIndex = Num 100,
                    endIndex = Num 200, step = None\<rparr>,
        curves = get_log_curves,
        data = [(100, Some 7, 0)],
        metadata_discrete =
          [(''Lithostrat_unit'',
            \<lparr>attributes = [''color'', ''code''],
             objects = [(''Sand'', ([0, 0, 0, 255], 0))]\<rparr>),
           (''DepositionalEnvironment'',
            \<lparr>attributes = [''color'', ''code''],
             objects = [(''Marine'', ([0, 0, 128, 255], 8))]\<rparr>)]\<rparr> \<and>
   \<not> has_entry
       [(''Lithostrat_unit'',
         \<lparr>attributes = [''color'', ''code''],
          objects = [(''Sand'', ([0, 0, 0, 255], 0))]\<rparr>),
        (''DepositionalEnvironment'',
         \<lparr>attributes = [''color'', ''code''],
          objects = [(''Marine'', ([0, 0, 128, 255], 8))]\<rparr>)]
       ''DepositionalEnvironment'' 7"
  by code_simp

text \<open>
  Claim C7, amended: when the entries of the reference table that share a label share
  their code, every data row of a document returned for a well has an entry for its
  stratigraphic code in the block \<^verbatim>\<open>Lithostrat_unit\<close> and, unless its
  depositional-environment value is \<^verbatim>\<open>None\<close>, an entry for that code in the block
  \<^verbatim>\<open>DepositionalEnvironment\<close>. The metadata is the block of the stratigraphic code table
  followed by the block of the resolver, under their two distinct curve names.
\<close>

theorem discrete_values_have_metadata_entries:
  assumes "\<forall>r1\<in>set (dep_environments self). \<forall>r2\<in>set (dep_environments self).
             DEPOSITIONAL_ENVIRONMENT r1 = DEPOSITIONAL_ENVIRONMENT r2 \<longrightarrow>
             SMDA_code r1 = SMDA_code r2"
    and "get_webviz_well_log self w = Inr doc"
    and "(md, depenv, code) \<in> set (data doc)"
  shows "has_entry (metadata_discrete doc) ''Lithostrat_unit'' code \<and>
         (\<forall>c. depenv = Some c \<longrightarrow> has_entry (metadata_discrete doc) ''DepositionalEnvironment'' c) \<and>
         metadata_discrete doc =
           (''Lithostrat_unit'',
            \<lparr>attributes = [''color'', ''code''],
             objects = map (\<lambda>(label, code). (label, ([0, 0, 0, 255], code)))
                         (lithostrat_codes self)\<rparr>) #
           get_webviz_well_log_metadata (dep_environments self)"
proof -
  from assms(2) obtain d where d: "get_log_data self w = Inr d"
    and doc: "doc = \<lparr>header = get_log_header self w, curves = get_log_curves, data = d,
                     metadata_discrete = get_log_metadata_discrete self\<rparr>"
    unfolding get_webviz_well_log_Inr by (elim exE conjE)
  from d have "list_all2 (\<lambda>row r. log_data_row self row = Inr r) (rows_of_well self w) d"
    by (simp add: get_log_data_Inr)
  moreover from assms(3) have "(md, depenv, code) \<in> set d" by (simp add: doc)
  ultimately have "\<exists>row\<in>set (rows_of_well self w). log_data_row self row = Inr (md, depenv, code)"
    by (rule list_all2_in_set_right)
  then obtain row where row: "log_data_row self row = Inr (md, depenv, code)" by (elim bexE)
  from row [unfolded log_data_row_Inr]
  have entry: "depenv_entry self row = Inr depenv"
    and code: "map_of (lithostrat_codes self) (Lithostrat_unit row) = Some code"
    by simp_all
  have one: "has_entry (metadata_discrete doc) ''Lithostrat_unit'' code"
    unfolding doc using code by (simp add: lithostrat_entry)
  have two: "has_entry (metadata_discrete doc) ''DepositionalEnvironment'' c" if "depenv = Some c" for c
  proof -
    from entry [unfolded depenv_entry_Inr] that obtain s where
      "get_smda_code_for_dep_environment (dep_environments self) s = Inr c"
      by (cases "Depositional_Environment row") simp_all
    with assms(1)
    have "has_entry (get_log_metadata_discrete self) ''DepositionalEnvironment'' c"
      by (rule depenv_entry_metadata)
    then show ?thesis by (simp add: doc)
  qed
  have three: "metadata_discrete doc =
           (''Lithostrat_unit'',
            \<lparr>attributes = [''color'', ''code''],
             objects = map (\<lambda>(label, code). (label, ([0, 0, 0, 255], code)))
                         (lithostrat_codes self)\<rparr>) #
           get_webviz_well_log_metadata (dep_environments self)"
    unfolding doc by (simp add: get_log_metadata_discrete_blocks get_webviz_well_log_metadata_def)
  from one two three show ?thesis by blast
qed

theorem discrete_values_have_metadata_entries_witness:
  "map_sum id data (get_webviz_well_log
     \<lparr>lithostrat_df =
        [\<lparr>unique_wellbore_identifier = ''A-1'', Depth_top = 100, Depth_base = 200,
          Lithostrat_unit = ''Sand'', Depositional_Environment = Some ''marine''\<rparr>,
         \<lparr>unique_wellbore_identifier = ''A-1'', Depth_top = 200, Depth_base = 300,
          Lithostrat_unit = ''Shale'', Depositional_Environment = None\<rparr>],
      dep_environments =
        [\<lparr>DEPOSITIONAL_ENVIRONMENT = ''Marine'', SMDA_code = 7, col_R = 0, col_G = 0, col_B = 255\<rparr>,
         \<lparr>DEPOSITIONAL_ENVIRONMENT = ''Fluvial'', SMDA_code = 3, col_R = 255, col_G = 0, col_B = 0\<rparr>,
         \<lparr>DEPOSITIONAL_ENVIRONMENT = ''Marine'', SMDA_code = 7, col_R = 0, col_G = 0, col_B = 128\<rparr>]\<rparr>
     ''A-1'') = Inr [(100, Some 7, 0), (200, None, 1)] \<and>
   has_entry (get_log_metadata_discrete
     \<lparr>lithostrat_df =
        [\<lparr>unique_wellbore_identifier = ''A-1'', Depth_top = 100, Depth_base = 200,
          Lithostrat_unit = ''Sand'', Depositional_Environment = Some ''marine''\<rparr>,
         \<lparr>unique_wellbore_identifier = ''A-1'', Depth_top = 200, Depth_base = 300,
          Lithostrat_unit = ''Shale'', Depositional_Environment = None\<rparr>],
      dep_environments =
        [\<lparr>DEPOSITIONAL_ENVIRONMENT = ''Marine'', SMDA_code = 7, col_R = 0, col_G = 0, col_B = 255\<rparr>,
         \<lparr>DEPOSITIONAL_ENVIRONMENT = ''Fluvial'', SMDA_code = 3, col_R = 255, col_G = 0, col_B = 0\<rparr>,
         \<lparr>DEPOSITIONAL_ENVIRONMENT = ''Marine'', SMDA_code = 7, col_R = 0, col_G = 0, col_B = 128\<rparr>]\<rparr>)
     ''DepositionalEnvironment'' 7 \<and>
   has_entry (get_log_metadata_discrete
     \<lparr>lithostrat_df =
        [\<lparr>unique_wellbore_identifier = ''A-1'', Depth_top = 100, Depth_base = 200,
          Lithostrat_unit = ''Sand'', Depositional_Environment = Some ''marine''\<rparr>,
         \<lparr>unique_wellbore_identifier = ''A-1'', Depth_top = 200, Depth_base = 300,
          Lithostrat_unit = ''Shale'', Depositional_Environment = None\<rparr>],
      dep_environments =
        [\<lparr>DEPOSITIONAL_ENVIRONMENT = ''Marine'', SMDA_code = 7, col_R = 0, col_G = 0, col_B = 255\<rparr>,
         \<lparr>DEPOSITIONAL_ENVIRONMENT = ''Fluvial'', SMDA_code = 3, col_R = 255, col_G = 0, col_B = 0\<rparr>,
         \<lparr>DEPOSITIONAL_ENVIRONMENT = ''Marine'', SMDA_code = 7, col_R = 0, col_G = 0, col_B = 128\<rparr>]\<rparr>)
     ''Lithostrat_unit'' 0"
proof -
  let ?self = "\<lparr>lithostrat_df =
        [\<lparr>unique_wellbore_identifier = ''A-1'', Depth_top = 100, Depth_base = 200,
          Lithostrat_unit = ''Sand'', Depositional_Environment = Some ''marine''\<rparr>,
         \<lparr>unique_wellbore_identifier = ''A-1'', Depth_top = 200, Depth_base = 300,
          Lithostrat_unit = ''Shale'', Depositional_Environment = None\<rparr>],
      dep_environments =
        [\<lparr>DEPOSITIONAL_ENVIRONMENT = ''Marine'', SMDA_code = 7, col_R = 0, col_G = 0, col_B = 255\<rparr>,
         \<lparr>DEPOSITIONAL_ENVIRONMENT = ''Fluvial'', SMDA_code = 3, col_R = 255, col_G = 0, col_B = 0\<rparr>,
         \<lparr>DEPOSITIONAL_ENVIRONMENT = ''Marine'', SMDA_code = 7, col_R = 0, col_G = 0, col_B = 128\<rparr>]\<rparr>"
  let ?doc = "\<lparr>header = get_log_header ?self ''A-1'', curves = get_log_curves,
               data = [(100, Some 7, 0), (200, None, 1)],
               metadata_discrete = get_log_metadata_discrete ?self\<rparr>"
  have same: "\<forall>r1\<in>set (dep_environments ?self). \<forall>r2\<in>set (dep_environments ?self).
             DEPOSITIONAL_ENVIRONMENT r1 = DEPOSITIONAL_ENVIRONMENT r2 \<longrightarrow>
             SMDA_code r1 = SMDA_code r2"
    by simp
  have built: "get_webviz_well_log ?self ''A-1'' = Inr ?doc" by code_simp
  have row: "(100, Some 7, 0) \<in> set (data ?doc)" by simp
  from discrete_values_have_metadata_entries [OF same built row]
  have "has_entry (metadata_discrete ?doc) ''Lithostrat_unit'' 0"
    and "has_entry (metadata_discrete ?doc) ''DepositionalEnvironment'' 7"
    by blast+
  then show ?thesis unfolding built by simp
qed

section \<open>Multi-Well Synchronizer\<close>

text \<open>
  Claim C9, as stated, fails on the selection of the one well ``A-1'' when a row of that
  well names a depositional environment that the reference table does not hold: the
  build of the document raises \<^verbatim>\<open>IndexError\<close>, and so does the callback, which returns
  no sequences.
\<close>

theorem selection_with_failing_well_raises:
  "set_well
     \<lparr>lithostrat_df =
        [\<lparr>unique_wellbore_identifier = ''A-1'', Depth_top = 100, Depth_base = 200,
          Lithostrat_unit = ''Sand'', Depositional_Environment = Some ''delta''\<rparr>],
      dep_environments =
        [\<lparr>DEPOSITIONAL_ENVIRONMENT = ''Marine'', SMDA_code = 7, col_R = 0, col_G = 0, col_B = 255\<rparr>]\<rparr>
     [''A-1''] = Inl IndexError"
  by code_simp

text \<open>
  Claim C9, amended: the empty selection yields four empty lists. For a selection all
  of whose documents can be built, the callback returns the documents, in the order of
  the selection and one for each identifier as \<^verbatim>\<open>get_webviz_well_log\<close> returns it, the
  templates, the spacers, each 200, and the spacers once more as the well distances,
  four lists as long as the selection. When the build of a selected well raises, the
  callback raises.
\<close>

theorem set_well_parallel_sequences:
  "set_well lith [] = Inr ([], [], [], []) \<and>
   ((\<forall>w\<in>set well_names. \<exists>doc. get_webviz_well_log lith w = Inr doc) \<longrightarrow>
      (\<exists>docs templates spacers dists.
          set_well lith well_names = Inr (docs, templates, spacers, dists) \<and>
          length docs = length well_names \<and> length templates = length well_names \<and>
          length spacers = length well_names \<and> length dists = length well_names \<and>
          (\<forall>i<length well_names. get_webviz_well_log lith (well_names ! i) = Inr (docs ! i)) \<and>
          dists = spacers \<and> (\<forall>s\<in>set spacers. s = 200))) \<and>
   ((\<exists>w\<in>set well_names. isl (get_webviz_well_log lith w)) \<longrightarrow>
      isl (set_well lith well_names))"
proof (intro conjI impI)
  show "set_well lith [] = Inr ([], [], [], [])"
    by (simp add: set_well_def)
next
  assume "\<forall>w\<in>set well_names. \<exists>doc. get_webviz_well_log lith w = Inr doc"
  then obtain docs where docs: "well_logs lith well_names = Inr docs"
    using well_logs_succeeds by blast
  then have rel: "list_all2 (\<lambda>w doc. get_webviz_well_log lith w = Inr doc) well_names docs"
    by (simp add: well_logs_Inr)
  have len: "length docs = length well_names"
    using rel by (simp add: list_all2_lengthD)
  have nth: "\<forall>i<length well_names. get_webviz_well_log lith (well_names ! i) = Inr (docs ! i)"
    using rel by (simp add: list_all2_conv_all_nth)
  have "set_well lith well_names =
          Inr (docs, map (\<lambda>_. well_template) well_names, map (\<lambda>_. 200) well_names,
               map (\<lambda>_. 200) well_names)"
    by (simp add: set_well_def docs Let_def)
  with len nth show "\<exists>docs templates spacers dists.
          set_well lith well_names = Inr (docs, templates, spacers, dists) \<and>
          length docs = length well_names \<and> length templates = length well_names \<and>
          length spacers = length well_names \<and> length dists = length well_names \<and>
          (\<forall>i<length well_names. get_webviz_well_log lith (well_names ! i) = Inr (docs ! i)) \<and>
          dists = spacers \<and> (\<forall>s\<in>set spacers. s = 200)"
    by simp
next
  assume "\<exists>w\<in>set well_names. isl (get_webviz_well_log lith w)"
  then have "isl (well_logs lith well_names)" using well_logs_fails by blast
  then show "isl (set_well lith well_names)"
    by (cases "well_logs lith well_names") (simp_all add: set_well_def)
qed

theorem set_well_parallel_sequences_witness:
  "map_sum id (\<lambda>(docs, templates, spacers, dists).
       (map (\<lambda>doc. (well (header doc), data doc)) docs, length templates, spacers, dists))
     (set_well
       \<lparr>lithostrat_df =
          [\<lparr>unique_wellbore_identifier = ''A-1'', Depth_top = 100, Depth_base = 200,
            Lithostrat_unit = ''Sand'', Depositional_Environment = Some ''marine''\<rparr>,
           \<lparr>unique_wellbore_identifier = ''B-2'', Depth_top = 50, Depth_base = 80,
            Lithostrat_unit = ''Shale'', Depositional_Environment = None\<rparr>,
           \<lparr>unique_wellbore_identifier = ''C-3'', Depth_top = 10, Depth_base = 20,
            Lithostrat_unit = ''Chalk'', Depositional_Environment = Some ''delta''\<rparr>],
        dep_environments =
          [\<lparr>DEPOSITIONAL_ENVIRONMENT = ''Marine'', SMDA_code = 7, col_R = 0, col_G = 0, col_B = 255\<rparr>]\<rparr>
       [''B-2'', ''A-1'']) =
     Inr ([(''B-2'', [(50, None, 1)]), (''A-1'', [(100, Some 7, 0)])], 2, [200, 200], [200, 200]) \<and>
   isl (set_well
       \<lparr>lithostrat_df =
          [\<lparr>unique_wellbore_identifier = ''A-1'', Depth_top = 100, Depth_base = 200,
            Lithostrat_unit = ''Sand'', Depositional_Environment = Some ''marine''\<rparr>,
           \<lparr>unique_wellbore_identifier = ''B-2'', Depth_top = 50, Depth_base = 80,
            Lithostrat_unit = ''Shale'', Depositional_Environment = None\<rparr>,
           \<lparr>unique_wellbore_identifier = ''C-3'', Depth_top = 10, Depth_base = 20,
            Lithostrat_unit = ''Chalk'', Depositional_Environment = Some ''delta''\<rparr>],
        dep_environments =
          [\<lparr>DEPOSITIONAL_ENVIRONMENT = ''Marine'', SMDA_code = 7, col_R = 0, col_G = 0, col_B = 255\<rparr>]\<rparr>
       [''A-1'', ''C-3''])"
proof -
  let ?lith = "\<lparr>lithostrat_df =
          [\<lparr>unique_wellbore_identifier = ''A-1'', Depth_top = 100, Depth_base = 200,
            Lithostrat_unit = ''Sand'', Depositional_Environment = Some ''marine''\<rparr>,
           \<lparr>unique_wellbore_identifier = ''B-2'', Depth_top = 50, Depth_base = 80,
            Lithostrat_unit = ''Shale'', Depositional_Environment = None\<rparr>,
           \<lparr>unique_wellbore_identifier = ''C-3'', Depth_top = 10, Depth_base = 20,
            Lithostrat_unit = ''Chalk'', Depositional_Environment = Some ''delta''\<rparr>],
        dep_environments =
          [\<lparr>DEPOSITIONAL_ENVIRONMENT = ''Marine'', SMDA_code = 7, col_R = 0, col_G = 0, col_B = 255\<rparr>]\<rparr>"
  let ?da = "\<lparr>header = get_log_header ?lith ''A-1'', curves = get_log_curves,
              data = [(100, Some 7, 0)], metadata_discrete = get_log_metadata_discrete ?lith\<rparr>"
  let ?db = "\<lparr>header = get_log_header ?lith ''B-2'', curves = get_log_curves,
              data = [(50, None, 1)], metadata_discrete = get_log_metadata_discrete ?lith\<rparr>"
  have a: "get_webviz_well_log ?lith ''A-1'' = Inr ?da" by code_simp
  have b: "get_webviz_well_log ?lith ''B-2'' = Inr ?db" by code_simp
  have c: "get_webviz_well_log ?lith ''C-3'' = Inl IndexError" by code_simp
  have wa: "well (get_log_header ?lith ''A-1'') = ''A-1''"
    by (simp add: get_log_header_def Let_def)
  have wb: "well (get_log_header ?lith ''B-2'') = ''B-2''"
    by (simp add: get_log_header_def Let_def)
  have all: "\<forall>w\<in>set [''B-2'', ''A-1'']. \<exists>doc. get_webviz_well_log ?lith w = Inr doc"
    using a b by simp
  with set_well_parallel_sequences [of ?lith "[''B-2'', ''A-1'']"]
  obtain docs templates spacers dists where
    res: "set_well ?lith [''B-2'', ''A-1''] = Inr (docs, templates, spacers, dists)"
    and len: "length docs = 2" "length templates = 2" "length spacers = 2"
    and nth: "\<forall>i<2. get_webviz_well_log ?lith ([''B-2'', ''A-1''] ! i) = Inr (docs ! i)"
    and eq: "dists = spacers" and sp: "\<forall>s\<in>set spacers. s = 200"
    by auto
  from len(1) obtain d0 d1 where docs: "docs = [d0, d1]"
    by (cases docs; cases "tl docs") auto
  from len(3) obtain s0 s1 where spacers: "spacers = [s0, s1]"
    by (cases spacers; cases "tl spacers") auto
  from nth have "get_webviz_well_log ?lith ''B-2'' = Inr d0" "get_webviz_well_log ?lith ''A-1'' = Inr d1"
    unfolding docs by (auto simp: less_Suc_eq numeral_2_eq_2)
  with a b have d: "d0 = ?db" "d1 = ?da" by simp_all
  have first: "map_sum id (\<lambda>(docs, templates, spacers, dists).
       (map (\<lambda>doc. (well (header doc), data doc)) docs, length templates, spacers, dists))
     (set_well ?lith [''B-2'', ''A-1'']) =
     Inr ([(''B-2'', [(50, None, 1)]), (''A-1'', [(100, Some 7, 0)])], 2, [200, 200], [200, 200])"
    using sp unfolding res docs d eq spacers by (simp add: wa wb len(2))
  have "\<exists>w\<in>set [''A-1'', ''C-3'']. isl (get_webviz_well_log ?lith w)"
    using c by simp
  with set_well_parallel_sequences [of ?lith "[''A-1'', ''C-3'']"]
  have "isl (set_well ?lith [''A-1'', ''C-3''])" by blast
  with first show ?thesis by blast
qed

end
